theory Spec2Isabelle
  imports Main
begin

section \<open>Data model\<close>

text \<open>
  The two Mongoose models of the lending portal, \<open>Equipment\<close> and \<open>Borrowing\<close>, and the
  route handlers and periodic jobs that write them.  A collection is a list of documents
  and an ObjectId is the position of the document in its collection: no route ever removes
  a document (equipment is only soft-deleted), so a position, once given out, stays valid.
  Dates are milliseconds since the epoch.  Only the fields that the lending logic reads or
  writes are kept; descriptive metadata of the equipment (name, category, location, ...)
  is left out, and so is the schema's \<open>trim\<close> of the notes.  The \<open>auth\<close> and \<open>authorize\<close>
  middleware run before a handler; a handler here is the \<open>async (req, res)\<close> function
  itself, given the caller's id; the \<open>:id\<close> of a route is a well-formed ObjectId.
  Handlers run one at a time, each to its end.

  \<open>damageReport\<close> is a nested path of the borrowing schema: every borrowing has it from
  its creation, with the schema's default \<open>reported\<close> for \<open>repairStatus\<close> and the other
  three fields unset, until a handler assigns \<open>borrowing.damageReport\<close>.
\<close>

type_synonym oid = nat
type_synonym date = int

datatype status = pending | approved | rejected | issued | returned | overdue

record DamageReport =
  description :: "string option"
  reportedAt :: "date option"
  reportedBy :: "oid option"
  repairStatus :: string

definition defaultDamageReport :: DamageReport where
  "defaultDamageReport =
     \<lparr>description = None, reportedAt = None, reportedBy = None, repairStatus = ''reported''\<rparr>"

text \<open>The borrowing's \<open>quantity\<close> and \<open>notes\<close> are the fields \<open>bquantity\<close> and \<open>bnotes\<close>; \<open>quantity\<close> is the
  equipment's.\<close>

record Borrowing =
  user :: oid
  equipment :: oid
  bquantity :: int
  borrowDate :: date
  dueDate :: date
  returnDate :: "date option"
  status :: status
  approvedBy :: "oid option"
  approvedAt :: "date option"
  issuedAt :: "date option"
  conditionBefore :: string
  conditionAfter :: "string option"
  bnotes :: "string option"
  damageReport :: DamageReport

record Equipment =
  condition :: string
  quantity :: int
  availableQuantity :: int
  isActive :: bool

text \<open>
  The database, together with what the handlers wrote with \<open>console.error\<close> (one entry per
  call, holding the call's arguments).
\<close>

record db =
  equipments :: "Equipment list"
  borrowings :: "Borrowing list"
  console :: "string list list"

definition emptyDb :: db where
  "emptyDb = \<lparr>equipments = [], borrowings = [], console = []\<rparr>"

datatype response =
    Json nat Borrowing
  | JsonEquipment nat Equipment
  | Message nat string
  | Errors nat "string list"

definition findById :: "'a list \<Rightarrow> oid \<Rightarrow> 'a option" where
  "findById docs i = (if i < length docs then Some (docs ! i) else None)"

text \<open>JavaScript truthiness of an optional string of the request body, and \<open>a || b\<close>.\<close>

definition truthy :: "string option \<Rightarrow> bool" where
  "truthy v = (case v of None \<Rightarrow> False | Some x \<Rightarrow> x \<noteq> [])"

definition orElse :: "string option \<Rightarrow> string option \<Rightarrow> string option" where
  "orElse a b = (if truthy a then a else b)"

subsection \<open>Schema validation and save hooks\<close>

definition borrowingConditionEnum :: "string list" where
  "borrowingConditionEnum = [''excellent'', ''good'', ''fair'', ''poor'']"

definition equipmentConditionEnum :: "string list" where
  "equipmentConditionEnum = [''excellent'', ''good'', ''fair'', ''poor'', ''under_maintenance'']"

text \<open>
  The \<open>pre('save')\<close> hooks of the equipment schema.  \<open>isNew\<close> and \<open>quantityModified\<close>
  are Mongoose's \<open>this.isNew\<close> and \<open>this.isModified('quantity')\<close>; \<open>original\<close> is the
  transient \<open>this._originalQuantity\<close>, which only the second hook ever assigns.
\<close>

definition preSaveAdjust :: "bool \<Rightarrow> bool \<Rightarrow> int option \<Rightarrow> Equipment \<Rightarrow> Equipment" where
  "preSaveAdjust isNew quantityModified original e =
     (if isNew then e\<lparr>availableQuantity := quantity e\<rparr>
      else if quantityModified then
        (let oldQuantity = (case original of
                              None \<Rightarrow> quantity e
                            | Some q \<Rightarrow> if q \<noteq> 0 then q else quantity e);
             quantityDiff = quantity e - oldQuantity
         in e\<lparr>availableQuantity := max 0 (availableQuantity e + quantityDiff)\<rparr>)
      else e)"

definition preSaveStore :: "bool \<Rightarrow> int option \<Rightarrow> Equipment \<Rightarrow> int option" where
  "preSaveStore quantityModified original e =
     (if quantityModified then
        (case original of
           None \<Rightarrow> Some (quantity e)
         | Some q \<Rightarrow> if q \<noteq> 0 then Some q else Some (quantity e))
      else original)"

text \<open>
  \<open>equipment.save()\<close> on a loaded document to which the handler has assigned
  \<open>availableQuantity\<close> (the only way the borrowing routes and the availability job save
  equipment): validation, then the hooks, then the write.  Mongoose validates the stored
  paths as well; of the validators only \<open>min: 0\<close> on the assigned \<open>availableQuantity\<close> is
  modelled, the stored \<open>quantity\<close> and \<open>condition\<close> being taken to pass theirs.  (They do
  in every document written by the routes, unless an update operator that Mongoose does
  not validate has written them; the traces of the ledger theorem below exclude that.)
\<close>

definition saveEquipment :: "oid \<Rightarrow> Equipment \<Rightarrow> db \<Rightarrow> string + db" where
  "saveEquipment i e s =
     (if availableQuantity e < 0 then Inl ''ValidationError''
      else Inr (s\<lparr>equipments := (equipments s)[i := preSaveAdjust False False None e]\<rparr>))"

text \<open>
  \<open>borrowing.save()\<close>.  The validators that can fail are those of \<open>quantity\<close>
  (\<open>min: 1\<close>), \<open>conditionBefore\<close> and \<open>conditionAfter\<close> (both \<open>enum\<close>).  Mongoose runs
  them on every save, for the stored paths too.  A new document is checked in full
  (\<open>validNewBorrowing\<close>).  For a loaded document the stored paths are taken to pass (no
  route stores a borrowing that fails validation), so only a path that the handler has
  assigned can fail, and \<open>conditionAfter\<close> is the only such path with a validator: the
  flag says whether the handler assigned it.
\<close>

definition validNewBorrowing :: "Borrowing \<Rightarrow> bool" where
  "validNewBorrowing b =
     (1 \<le> bquantity b \<and> conditionBefore b \<in> set borrowingConditionEnum)"

definition validConditionAfter :: "Borrowing \<Rightarrow> bool" where
  "validConditionAfter b =
     (case conditionAfter b of None \<Rightarrow> True | Some c \<Rightarrow> c \<in> set borrowingConditionEnum)"

definition saveBorrowing :: "bool \<Rightarrow> oid \<Rightarrow> Borrowing \<Rightarrow> db \<Rightarrow> string + db" where
  "saveBorrowing conditionAfterModified i b s =
     (if conditionAfterModified \<and> \<not> validConditionAfter b then Inl ''ValidationError''
      else Inr (s\<lparr>borrowings := (borrowings s)[i := b]\<rparr>))"

definition serverError :: "string list \<Rightarrow> db \<Rightarrow> response \<times> db" where
  "serverError logged s = (Message 500 ''Server error'', s\<lparr>console := console s @ [logged]\<rparr>)"

section \<open>Borrowing routes\<close>

subsection \<open>POST /api/borrowings\<close>

text \<open>
  The fields of the request body.  \<open>equipmentId\<close> is empty, or a string that is not an
  ObjectId (\<open>Equipment.findById\<close> then throws a CastError), or an ObjectId.  \<open>quantity\<close>
  is \<open>None\<close> when it is not an integer.  \<open>dueDate\<close> is not an ISO 8601 date, or one that
  passes \<open>isISO8601\<close> but that \<open>new Date\<close> cannot parse (a week date such as
  \<open>2009-W01-1\<close>; the overlap query then throws a CastError), or a date.
\<close>

datatype idField = EmptyId | MalformedId | ObjectId oid

datatype dateField = NotISO8601 | InvalidDate | ValidDate date

definition validationErrors :: "idField \<Rightarrow> int option \<Rightarrow> dateField \<Rightarrow> string list" where
  "validationErrors equipmentId qty due =
     (if equipmentId = EmptyId then [''Equipment ID is required''] else []) @
     (if (case qty of None \<Rightarrow> True | Some q \<Rightarrow> q < 1) then [''Quantity must be at least 1''] else []) @
     (if due = NotISO8601 then [''Valid due date is required''] else [])"

definition overlapping :: "Borrowing list \<Rightarrow> oid \<Rightarrow> date \<Rightarrow> date \<Rightarrow> bool" where
  "overlapping bs equipmentId due now =
     (\<exists>b \<in> set bs. equipment b = equipmentId
        \<and> (status b = approved \<or> status b = issued \<or> status b = pending)
        \<and> borrowDate b \<le> due \<and> now \<le> dueDate b)"

definition newBorrowing :: "oid \<Rightarrow> oid \<Rightarrow> int \<Rightarrow> date \<Rightarrow> date \<Rightarrow> string \<Rightarrow> Borrowing" where
  "newBorrowing uid equipmentId q due now cond =
     \<lparr>user = uid, equipment = equipmentId, bquantity = q, borrowDate = now, dueDate = due,
      returnDate = None, status = pending, approvedBy = None, approvedAt = None,
      issuedAt = None, conditionBefore = cond, conditionAfter = None, bnotes = None,
      damageReport = defaultDamageReport\<rparr>"

definition createBorrowing ::
  "oid \<Rightarrow> date \<Rightarrow> idField \<Rightarrow> int option \<Rightarrow> dateField \<Rightarrow> db \<Rightarrow> response \<times> db" where
  "createBorrowing uid now equipmentId qty due s =
     (if validationErrors equipmentId qty due \<noteq> []
      then (Errors 400 (validationErrors equipmentId qty due), s)
      else (case (equipmentId, qty) of
          (ObjectId eid, Some q) \<Rightarrow>
            (case findById (equipments s) eid of
               None \<Rightarrow> (Message 404 ''Equipment not found'', s)
             | Some e \<Rightarrow>
                 if \<not> isActive e then (Message 404 ''Equipment not found'', s)
                 else if availableQuantity e < q
                 then (Message 400 ''Not enough equipment available'', s)
                 else (case due of
                     ValidDate d \<Rightarrow>
                       if overlapping (borrowings s) eid d now
                       then (Message 400 ''Equipment already booked for this period'', s)
                       else (let b = newBorrowing uid eid q d now (condition e)
                             in if \<not> validNewBorrowing b then serverError [''ValidationError''] s
                                else (Json 201 b, s\<lparr>borrowings := borrowings s @ [b]\<rparr>))
                   | _ \<Rightarrow> serverError [''CastError''] s))
        | (MalformedId, _) \<Rightarrow> serverError [''CastError''] s
        | _ \<Rightarrow> serverError [''TypeError''] s))"

subsection \<open>PATCH /api/borrowings/:id/approve (first registration)\<close>

definition approve :: "oid \<Rightarrow> oid \<Rightarrow> date \<Rightarrow> db \<Rightarrow> response \<times> db" where
  "approve bid uid now s =
     (case findById (borrowings s) bid of
        None \<Rightarrow> (Message 404 ''Borrowing request not found'', s)
      | Some b \<Rightarrow>
          if status b \<noteq> pending then (Message 400 ''Request already processed'', s)
          else (case findById (equipments s) (equipment b) of
              None \<Rightarrow> serverError [''TypeError''] s
            | Some e \<Rightarrow>
                if availableQuantity e < bquantity b
                then (Message 400 ''Not enough equipment available'', s)
                else (case saveEquipment (equipment b)
                             (e\<lparr>availableQuantity := availableQuantity e - bquantity b\<rparr>) s of
                    Inl err \<Rightarrow> serverError [err] s
                  | Inr s1 \<Rightarrow>
                      (let b' = b\<lparr>status := approved, approvedBy := Some uid,
                                   approvedAt := Some now\<rparr>
                       in case saveBorrowing False bid b' s1 of
                            Inl err \<Rightarrow> serverError [err] s1
                          | Inr s2 \<Rightarrow> (Json 200 b', s2)))))"

subsection \<open>PATCH /api/borrowings/:id/reject\<close>

definition reject :: "oid \<Rightarrow> oid \<Rightarrow> date \<Rightarrow> string option \<Rightarrow> db \<Rightarrow> response \<times> db" where
  "reject bid uid now reqNotes s =
     (case findById (borrowings s) bid of
        None \<Rightarrow> (Message 404 ''Borrowing request not found'', s)
      | Some b \<Rightarrow>
          if status b \<noteq> pending then (Message 400 ''Request already processed'', s)
          else (let b' = b\<lparr>status := rejected, approvedBy := Some uid, approvedAt := Some now,
                             bnotes := orElse reqNotes (Some ''Request rejected'')\<rparr>
                in case saveBorrowing False bid b' s of
                     Inl err \<Rightarrow> serverError [err] s
                   | Inr s1 \<Rightarrow> (Json 200 b', s1)))"

subsection \<open>PATCH /api/borrowings/:id/issue\<close>

definition issue :: "oid \<Rightarrow> date \<Rightarrow> db \<Rightarrow> response \<times> db" where
  "issue bid now s =
     (case findById (borrowings s) bid of
        None \<Rightarrow> (Message 404 ''Borrowing request not found'', s)
      | Some b \<Rightarrow>
          if status b \<noteq> approved
          then (Message 400 ''Only approved requests can be issued'', s)
          else (let b' = b\<lparr>status := issued, issuedAt := Some now\<rparr>
                in case saveBorrowing False bid b' s of
                     Inl err \<Rightarrow> serverError [err] s
                   | Inr s1 \<Rightarrow> (Json 200 b', s1)))"

subsection \<open>PATCH /api/borrowings/:id/return (first registration)\<close>

text \<open>
  \<open>reqCondition\<close> and \<open>reqNotes\<close> are \<open>req.body.conditionAfter\<close> and \<open>req.body.notes\<close>
  (any string, or absent: the route validates neither).  A value that is not a string
  acts as an absent one when it is falsy, and as a string outside the schema's enum
  otherwise (it is cast to a string, or fails the cast, when the borrowing is saved).
  The equipment is saved before the borrowing is, so a borrowing that fails validation
  leaves the equipment's write behind.
\<close>

definition damageDescription :: "string \<Rightarrow> string \<Rightarrow> string" where
  "damageDescription condBefore condAfter =
     ''Equipment condition changed from '' @ condBefore @ '' to '' @ condAfter"

definition returnItem ::
  "oid \<Rightarrow> oid \<Rightarrow> date \<Rightarrow> string option \<Rightarrow> string option \<Rightarrow> db \<Rightarrow> response \<times> db" where
  "returnItem bid uid now reqCondition reqNotes s =
     (case findById (borrowings s) bid of
        None \<Rightarrow> (Message 404 ''Borrowing record not found'', s)
      | Some b \<Rightarrow>
          if status b \<noteq> issued \<and> status b \<noteq> overdue
          then (Message 400 ''Only issued equipment can be returned'', s)
          else (case findById (equipments s) (equipment b) of
              None \<Rightarrow> serverError [''TypeError''] s
            | Some e \<Rightarrow>
                (case saveEquipment (equipment b)
                        (e\<lparr>availableQuantity := availableQuantity e + bquantity b\<rparr>) s of
                   Inl err \<Rightarrow> serverError [err] s
                 | Inr s1 \<Rightarrow>
                     (let b1 = b\<lparr>status := returned, returnDate := Some now,
                                  conditionAfter := orElse reqCondition (Some (conditionBefore b)),
                                  bnotes := orElse reqNotes (bnotes b)\<rparr>;
                          b2 = (if truthy reqCondition \<and> reqCondition \<noteq> Some (conditionBefore b)
                                then b1\<lparr>damageReport :=
                                       \<lparr>description = Some (damageDescription (conditionBefore b)
                                                         (case reqCondition of Some c \<Rightarrow> c | None \<Rightarrow> [])),
                                        reportedAt = Some now, reportedBy = Some uid,
                                        repairStatus = ''reported''\<rparr>\<rparr>
                                else b1)
                      in case saveBorrowing True bid b2 s1 of
                           Inl err \<Rightarrow> serverError [err] s1
                         | Inr s2 \<Rightarrow> (Json 200 b2, s2)))))"

subsection \<open>The second registrations of approve and return\<close>

text \<open>
  The router file registers \<open>PATCH /:id/approve\<close> and \<open>PATCH /:id/return\<close> a second
  time further down.  The two copies are translated separately; they differ in what the
  \<open>catch\<close> block passes to \<open>console.error\<close>.
\<close>

definition serverErrorIn :: "string \<Rightarrow> string \<Rightarrow> db \<Rightarrow> response \<times> db" where
  "serverErrorIn label err s =
     (Message 500 ''Server error'', s\<lparr>console := console s @ [[label, err]]\<rparr>)"

definition approveSecond :: "oid \<Rightarrow> oid \<Rightarrow> date \<Rightarrow> db \<Rightarrow> response \<times> db" where
  "approveSecond bid uid now s =
     (case findById (borrowings s) bid of
        None \<Rightarrow> (Message 404 ''Borrowing request not found'', s)
      | Some b \<Rightarrow>
          if status b \<noteq> pending then (Message 400 ''Request already processed'', s)
          else (case findById (equipments s) (equipment b) of
              None \<Rightarrow> serverErrorIn ''Error approving borrowing:'' ''TypeError'' s
            | Some e \<Rightarrow>
                if availableQuantity e < bquantity b
                then (Message 400 ''Not enough equipment available'', s)
                else (case saveEquipment (equipment b)
                             (e\<lparr>availableQuantity := availableQuantity e - bquantity b\<rparr>) s of
                    Inl err \<Rightarrow> serverErrorIn ''Error approving borrowing:'' err s
                  | Inr s1 \<Rightarrow>
                      (let b' = b\<lparr>status := approved, approvedBy := Some uid,
                                   approvedAt := Some now\<rparr>
                       in case saveBorrowing False bid b' s1 of
                            Inl err \<Rightarrow> serverErrorIn ''Error approving borrowing:'' err s1
                          | Inr s2 \<Rightarrow> (Json 200 b', s2)))))"

definition returnItemSecond ::
  "oid \<Rightarrow> oid \<Rightarrow> date \<Rightarrow> string option \<Rightarrow> string option \<Rightarrow> db \<Rightarrow> response \<times> db" where
  "returnItemSecond bid uid now reqCondition reqNotes s =
     (case findById (borrowings s) bid of
        None \<Rightarrow> (Message 404 ''Borrowing record not found'', s)
      | Some b \<Rightarrow>
          if status b \<noteq> issued \<and> status b \<noteq> overdue
          then (Message 400 ''Only issued equipment can be returned'', s)
          else (case findById (equipments s) (equipment b) of
              None \<Rightarrow> serverErrorIn ''Error returning equipment:'' ''TypeError'' s
            | Some e \<Rightarrow>
                (case saveEquipment (equipment b)
                        (e\<lparr>availableQuantity := availableQuantity e + bquantity b\<rparr>) s of
                   Inl err \<Rightarrow> serverErrorIn ''Error returning equipment:'' err s
                 | Inr s1 \<Rightarrow>
                     (let b1 = b\<lparr>status := returned, returnDate := Some now,
                                  conditionAfter := orElse reqCondition (Some (conditionBefore b)),
                                  bnotes := orElse reqNotes (bnotes b)\<rparr>;
                          b2 = (if truthy reqCondition \<and> reqCondition \<noteq> Some (conditionBefore b)
                                then b1\<lparr>damageReport :=
                                       \<lparr>description = Some (damageDescription (conditionBefore b)
                                                         (case reqCondition of Some c \<Rightarrow> c | None \<Rightarrow> [])),
                                        reportedAt = Some now, reportedBy = Some uid,
                                        repairStatus = ''reported''\<rparr>\<rparr>
                                else b1)
                      in case saveBorrowing True bid b2 s1 of
                           Inl err \<Rightarrow> serverErrorIn ''Error returning equipment:'' err s1
                         | Inr s2 \<Rightarrow> (Json 200 b2, s2)))))"

text \<open>
  Express runs the handlers of a path in the order of registration and goes on to the next
  one only when a handler calls \<open>next()\<close>; none of these does, each one answers.
\<close>

definition dispatch :: "('a \<Rightarrow> response \<times> db) list \<Rightarrow> 'a \<Rightarrow> (response \<times> db) option" where
  "dispatch registered s = (case registered of [] \<Rightarrow> None | h # _ \<Rightarrow> Some (h s))"

section \<open>Periodic jobs (utils/overdueChecker.js)\<close>

subsection \<open>checkOverdueBorrowings\<close>

definition isLapsed :: "date \<Rightarrow> Borrowing \<Rightarrow> bool" where
  "isLapsed now b =
     ((status b = approved \<or> status b = issued) \<and> dueDate b < now \<and> returnDate b = None)"

text \<open>The \<open>for\<close> loop over the documents that \<open>find\<close> returned, each with its id.\<close>

fun markOverdue :: "(oid \<times> Borrowing) list \<Rightarrow> db \<Rightarrow> string option \<times> db" where
  "markOverdue [] s = (None, s)"
| "markOverdue ((i, b) # found) s =
     (case saveBorrowing False i (b\<lparr>status := overdue\<rparr>) s of
        Inl err \<Rightarrow> (Some err, s)
      | Inr s1 \<Rightarrow> markOverdue found s1)"

definition checkOverdueBorrowings :: "date \<Rightarrow> db \<Rightarrow> db" where
  "checkOverdueBorrowings now s =
     (let overdueBorrowings = filter (\<lambda>(i, b). isLapsed now b) (enumerate 0 (borrowings s))
      in case markOverdue overdueBorrowings s of
           (None, s1) \<Rightarrow> s1
         | (Some err, s1) \<Rightarrow>
             s1\<lparr>console := console s1 @ [[''Error checking overdue borrowings:'', err]]\<rparr>)"

subsection \<open>updateEquipmentAvailability\<close>

definition isCommitted :: "Borrowing \<Rightarrow> bool" where
  "isCommitted b = (status b = approved \<or> status b = issued \<or> status b = overdue)"

definition activeBorrowings :: "Borrowing list \<Rightarrow> oid \<Rightarrow> Borrowing list" where
  "activeBorrowings bs i = filter (\<lambda>b. equipment b = i \<and> isCommitted b) bs"

definition borrowedQuantity :: "Borrowing list \<Rightarrow> oid \<Rightarrow> int" where
  "borrowedQuantity bs i = fold (\<lambda>b sum. sum + bquantity b) (activeBorrowings bs i) 0"

fun reconcileEach :: "(oid \<times> Equipment) list \<Rightarrow> db \<Rightarrow> string option \<times> db" where
  "reconcileEach [] s = (None, s)"
| "reconcileEach ((i, e) # equipmentList) s =
     (let available = max 0 (quantity e - borrowedQuantity (borrowings s) i)
      in if availableQuantity e \<noteq> available
         then (case saveEquipment i (e\<lparr>availableQuantity := available\<rparr>) s of
                 Inl err \<Rightarrow> (Some err, s)
               | Inr s1 \<Rightarrow> reconcileEach equipmentList s1)
         else reconcileEach equipmentList s)"

definition updateEquipmentAvailability :: "db \<Rightarrow> db" where
  "updateEquipmentAvailability s =
     (let equipmentList = filter (\<lambda>(i, e). isActive e) (enumerate 0 (equipments s))
      in case reconcileEach equipmentList s of
           (None, s1) \<Rightarrow> s1
         | (Some err, s1) \<Rightarrow>
             s1\<lparr>console := console s1 @ [[''Error updating equipment availability:'', err]]\<rparr>)"

section \<open>Equipment routes (routes/equipment.js)\<close>

text \<open>
  \<open>POST /api/equipment\<close>: \<open>quantity\<close> is \<open>None\<close> when the body's value is not an integer,
  \<open>condition\<close> is \<open>None\<close> when absent (the schema's default is \<open>good\<close>); \<open>name\<close> and
  \<open>category\<close> are taken to be valid.  The new document is saved with \<open>save()\<close>, so the
  hooks run with \<open>isNew\<close>.
\<close>

definition createEquipment :: "int option \<Rightarrow> string option \<Rightarrow> db \<Rightarrow> response \<times> db" where
  "createEquipment qty cond s =
     (let errors =
            (if (case qty of None \<Rightarrow> True | Some q \<Rightarrow> q < 1)
             then [''Quantity must be at least 1''] else []) @
            (if (case cond of None \<Rightarrow> False | Some c \<Rightarrow> c \<notin> set equipmentConditionEnum)
             then [''Invalid value''] else [])
      in if errors \<noteq> [] then (Errors 400 errors, s)
         else (case qty of
             None \<Rightarrow> serverErrorIn ''Error creating equipment:'' ''TypeError'' s
           | Some q \<Rightarrow>
               (let e = preSaveAdjust True False None
                          \<lparr>condition = (case cond of None \<Rightarrow> ''good'' | Some c \<Rightarrow> c),
                           quantity = q, availableQuantity = q, isActive = True\<rparr>
                in (JsonEquipment 201 e, s\<lparr>equipments := equipments s @ [e]\<rparr>))))"

text \<open>
  \<open>PUT /api/equipment/:id\<close>.  The handler drops the body's top-level
  \<open>availableQuantity\<close> and hands the rest to \<open>findByIdAndUpdate\<close> with
  \<open>runValidators\<close>.  This is an update query: it creates no document object and runs no
  \<open>save\<close> hook.  A top-level field is a \<open>$set\<close> of that path, and the rest of the body
  may hold update operators, for \<open>availableQuantity\<close> too.  Mongoose validates what is
  set (\<open>min: 0\<close> for both numbers, the \<open>enum\<close> of \<open>condition\<close>) and does not validate the
  result of an arithmetic operator such as \<open>$inc\<close>.

  What the body does to a number of the document: nothing, or set it to a value (at top
  level or under \<open>$set\<close>), or compute it from the stored value (\<open>$inc\<close>, \<open>$mul\<close>,
  \<open>$min\<close>, \<open>$max\<close>).  There is one such write per path, since MongoDB refuses an update
  that names a path under two operators; operators that remove or rename a path are not
  modelled (the document type has no missing number).
\<close>

datatype fieldWrite = Keep | SetTo int | Apply "int \<Rightarrow> int"

fun applyWrite :: "fieldWrite \<Rightarrow> int \<Rightarrow> int" where
  "applyWrite Keep x = x"
| "applyWrite (SetTo v) x = v"
| "applyWrite (Apply f) x = f x"

fun failsMin :: "fieldWrite \<Rightarrow> bool" where
  "failsMin (SetTo v) = (v < 0)"
| "failsMin w = False"

text \<open>
  \<open>bodyAvailableQuantity\<close> is the top-level \<open>availableQuantity\<close> that the handler drops;
  \<open>availableWrite\<close> is what the operators of the body do to \<open>availableQuantity\<close>.  The
  other fields stand for the path at top level or under \<open>$set\<close>; \<open>None\<close> when the body
  does not have it.
\<close>

record updateBody =
  bodyAvailableQuantity :: "int option"
  quantityWrite :: fieldWrite
  availableWrite :: fieldWrite
  bodyCondition :: "string option"
  bodyIsActive :: "bool option"

text \<open>A body of top-level fields only: \<open>quantity\<close>, \<open>condition\<close>, \<open>isActive\<close>.\<close>

definition plainBody :: "int option \<Rightarrow> string option \<Rightarrow> bool option \<Rightarrow> updateBody" where
  "plainBody qty cond active =
     \<lparr>bodyAvailableQuantity = None,
      quantityWrite = (case qty of None \<Rightarrow> Keep | Some q \<Rightarrow> SetTo q),
      availableWrite = Keep, bodyCondition = cond, bodyIsActive = active\<rparr>"

definition updateEquipment :: "oid \<Rightarrow> updateBody \<Rightarrow> db \<Rightarrow> response \<times> db" where
  "updateEquipment i body s =
     (if failsMin (quantityWrite body) \<or> failsMin (availableWrite body) \<or>
         (case bodyCondition body of None \<Rightarrow> False | Some c \<Rightarrow> c \<notin> set equipmentConditionEnum)
      then (Message 400 ''Validation error'',
            s\<lparr>console := console s @ [[''Error updating equipment:'', ''ValidationError'']]\<rparr>)
      else (case findById (equipments s) i of
          None \<Rightarrow> (Message 404 ''Equipment not found'', s)
        | Some e \<Rightarrow>
            (let e' = e\<lparr>quantity := applyWrite (quantityWrite body) (quantity e),
                         availableQuantity := applyWrite (availableWrite body) (availableQuantity e),
                         condition := (case bodyCondition body of None \<Rightarrow> condition e | Some c \<Rightarrow> c),
                         isActive := (case bodyIsActive body of None \<Rightarrow> isActive e | Some a \<Rightarrow> a)\<rparr>
             in (JsonEquipment 200 e', s\<lparr>equipments := (equipments s)[i := e']\<rparr>))))"

definition deleteEquipment :: "oid \<Rightarrow> db \<Rightarrow> response \<times> db" where
  "deleteEquipment i s =
     (case findById (equipments s) i of
        None \<Rightarrow> (Message 404 ''Equipment not found'', s)
      | Some e \<Rightarrow>
          (Message 200 ''Equipment deleted successfully'',
           s\<lparr>equipments := (equipments s)[i := e\<lparr>isActive := False\<rparr>]\<rparr>))"

section \<open>The system as a whole\<close>

text \<open>
  One request or one run of a job.  \<open>PATCH\<close> requests to approve and to return reach
  the first registered handler.
\<close>

datatype request =
    PostEquipment "int option" "string option"
  | PutEquipment oid updateBody
  | DeleteEquipment oid
  | PostBorrowing oid date idField "int option" dateField
  | PatchApprove oid oid date
  | PatchReject oid oid date "string option"
  | PatchIssue oid date
  | PatchReturn oid oid date "string option" "string option"
  | OverdueJob date
  | AvailabilityJob

fun step :: "request \<Rightarrow> db \<Rightarrow> db" where
  "step (PostEquipment qty cond) s = snd (createEquipment qty cond s)"
| "step (PutEquipment i body) s = snd (updateEquipment i body s)"
| "step (DeleteEquipment i) s = snd (deleteEquipment i s)"
| "step (PostBorrowing uid now equipmentId qty due) s =
     snd (createBorrowing uid now equipmentId qty due s)"
| "step (PatchApprove bid uid now) s = snd (approve bid uid now s)"
| "step (PatchReject bid uid now reqNotes) s = snd (reject bid uid now reqNotes s)"
| "step (PatchIssue bid now) s = snd (issue bid now s)"
| "step (PatchReturn bid uid now reqCondition reqNotes) s =
     snd (returnItem bid uid now reqCondition reqNotes s)"
| "step (OverdueJob now) s = checkOverdueBorrowings now s"
| "step AvailabilityJob s = updateEquipmentAvailability s"

definition run :: "request list \<Rightarrow> db \<Rightarrow> db" where
  "run reqs s = fold step reqs s"

section \<open>Example states and auxiliary notions\<close>

text \<open>
  One equipment type of five units, all free, and one pending request for three of them
  (made at time 100, due at time 200).
\<close>

definition wellStocked :: db where
  "wellStocked =
     \<lparr>equipments = [\<lparr>condition = ''good'', quantity = 5, availableQuantity = 5, isActive = True\<rparr>],
      borrowings = [newBorrowing 7 0 3 200 100 ''good''],
      console = []\<rparr>"

text \<open>One equipment type of two units, none free, and one pending request for one unit.\<close>

definition fullyCommitted :: db where
  "fullyCommitted =
     \<lparr>equipments = [\<lparr>condition = ''good'', quantity = 2, availableQuantity = 0, isActive = True\<rparr>],
      borrowings = [newBorrowing 7 0 1 200 100 ''good''],
      console = []\<rparr>"

text \<open>
  The sum that the ledger equation of the specification speaks of: the quantities of the
  borrowings of one equipment type whose status is approved, issued or overdue.
\<close>

definition committedQuantity :: "Borrowing list \<Rightarrow> oid \<Rightarrow> int" where
  "committedQuantity bs i =
     sum_list (map bquantity
       (filter (\<lambda>b. equipment b = i \<and> (status b = approved \<or> status b = issued \<or> status b = overdue)) bs))"


text \<open>Three of five units are out (issued at time 120) and were due at time 200.\<close>

definition issuedLate :: db where
  "issuedLate =
     \<lparr>equipments = [\<lparr>condition = ''good'', quantity = 5, availableQuantity = 2, isActive = True\<rparr>],
      borrowings = [(newBorrowing 7 0 3 200 100 ''good'')
                      \<lparr>status := issued, approvedBy := Some 9, approvedAt := Some 110,
                        issuedAt := Some 120\<rparr>],
      console = []\<rparr>"

text \<open>The ledger's \<open>resize\<close> in the words of the specification: the available quantity moves by
  the change of the total and is clamped to the interval from 0 to the new total.\<close>

definition specResize :: "int \<Rightarrow> int \<Rightarrow> int \<Rightarrow> int" where
  "specResize oldTotal newTotal available = max 0 (min newTotal (available + (newTotal - oldTotal)))"


text \<open>One equipment type of five units, all free, and no borrowing at all.\<close>

definition freshlyStocked :: db where
  "freshlyStocked =
     \<lparr>equipments = [\<lparr>condition = ''good'', quantity = 5, availableQuantity = 5, isActive = True\<rparr>],
      borrowings = [], console = []\<rparr>"

text \<open>
  The steps of a borrowing's own life cycle that lie between its approval and its return:
  issuing it, and a run of the overdue job.
\<close>

fun lifecycleStep :: "oid \<Rightarrow> request \<Rightarrow> bool" where
  "lifecycleStep bid (PatchIssue b now) = (b = bid)"
| "lifecycleStep bid (OverdueJob now) = True"
| "lifecycleStep bid r = False"

text \<open>The document that a successful return writes, as one term.\<close>

definition returnedDoc :: "Borrowing \<Rightarrow> oid \<Rightarrow> date \<Rightarrow> string option \<Rightarrow> string option \<Rightarrow> Borrowing" where
  "returnedDoc b uid now reqCondition reqNotes =
     b\<lparr>status := returned, returnDate := Some now,
       conditionAfter := orElse reqCondition (Some (conditionBefore b)),
       bnotes := orElse reqNotes (bnotes b),
       damageReport :=
         (if truthy reqCondition \<and> reqCondition \<noteq> Some (conditionBefore b)
          then \<lparr>description = Some (damageDescription (conditionBefore b)
                                    (case reqCondition of Some c \<Rightarrow> c | None \<Rightarrow> [])),
                reportedAt = Some now, reportedBy = Some uid, repairStatus = ''reported''\<rparr>
          else damageReport b)\<rparr>"

text \<open>
  A borrowing that has not been returned carries the damage report it was created with,
  and every damage report has the repair status \<open>reported\<close>.
\<close>

definition reportInv :: "db \<Rightarrow> bool" where
  "reportInv s =
     (\<forall>b \<in> set (borrowings s).
        repairStatus (damageReport b) = ''reported''
      \<and> (status b \<noteq> returned \<longrightarrow> damageReport b = defaultDamageReport))"

text \<open>The requests that lead to the state \<open>issuedLate\<close>.\<close>

definition issuedTrace :: "request list" where
  "issuedTrace =
     [PostEquipment (Some 5) None,
      PostBorrowing 7 100 (ObjectId 0) (Some 3) (ValidDate 200),
      PatchApprove 0 9 110,
      PatchIssue 0 120]"

text \<open>What one borrowing adds to the committed sum of equipment \<open>i\<close>.\<close>

definition committedShare :: "oid \<Rightarrow> Borrowing \<Rightarrow> int" where
  "committedShare i b =
     (if equipment b = i \<and> (status b = approved \<or> status b = issued \<or> status b = overdue)
      then bquantity b else 0)"




text \<open>
  The ledger invariant: every borrowing refers to an existing equipment and passes the
  schema's validators; every equipment has a valid condition and keeps the ledger bound.
\<close>

definition ledgerInv :: "db \<Rightarrow> bool" where
  "ledgerInv s =
     ((\<forall>b \<in> set (borrowings s). equipment b < length (equipments s)
          \<and> validNewBorrowing b \<and> validConditionAfter b)
      \<and> (\<forall>i < length (equipments s).
            condition (equipments s ! i) \<in> set equipmentConditionEnum
          \<and> 0 \<le> availableQuantity (equipments s ! i)
          \<and> availableQuantity (equipments s ! i) + committedQuantity (borrowings s) i
              \<le> quantity (equipments s ! i)))"


text \<open>
  Three of five units go out; a first return names a condition outside the schema's enum,
  a second one a valid condition.
\<close>

definition returnTwice :: "request list" where
  "returnTwice =
     [PostEquipment (Some 5) None,
      PostBorrowing 7 100 (ObjectId 0) (Some 3) (ValidDate 200),
      PatchApprove 0 9 110,
      PatchIssue 0 120,
      PatchReturn 0 7 130 (Some ''broken'') None,
      PatchReturn 0 7 131 (Some ''good'') None]"

text \<open>
  Three of five units go out; the total is raised to eight; the units come back in fair
  condition; the total is lowered to six; the availability job runs.
\<close>

definition growThenReturn :: "request list" where
  "growThenReturn =
     [PostEquipment (Some 5) None,
      PostBorrowing 7 100 (ObjectId 0) (Some 3) (ValidDate 200),
      PatchApprove 0 9 110,
      PatchIssue 0 120,
      PutEquipment 0 (plainBody (Some 8) None None),
      PatchReturn 0 7 130 (Some ''fair'') None,
      PutEquipment 0 (plainBody (Some 6) None None),
      AvailabilityJob]"

text \<open>Update bodies that write \<open>availableQuantity\<close> through an operator.\<close>

definition incAvailableBody :: "int \<Rightarrow> updateBody" where
  "incAvailableBody d = (plainBody None None None)\<lparr>availableWrite := Apply (\<lambda>x. x + d)\<rparr>"

definition setAvailableBody :: "int \<Rightarrow> updateBody" where
  "setAvailableBody a = (plainBody None None None)\<lparr>availableWrite := SetTo a\<rparr>"

section \<open>Properties\<close>

subsection \<open>Basic facts\<close>

lemma preSaveAdjust_loaded [simp]: "preSaveAdjust False False original e = e"
  by (simp add: preSaveAdjust_def)

text \<open>The definitions that evaluating a handler on a concrete database unfolds.\<close>

lemmas eval_defs =
  findById_def truthy_def orElse_def borrowingConditionEnum_def equipmentConditionEnum_def
  preSaveAdjust_def saveEquipment_def validNewBorrowing_def validConditionAfter_def
  saveBorrowing_def serverError_def validationErrors_def overlapping_def newBorrowing_def
  damageDescription_def isLapsed_def isCommitted_def activeBorrowings_def borrowedQuantity_def
  emptyDb_def plainBody_def defaultDamageReport_def Let_def

lemma findById_Some_iff: "findById docs i = Some d \<longleftrightarrow> i < length docs \<and> docs ! i = d"
  by (auto simp: findById_def)

lemma findById_None_iff: "findById docs i = None \<longleftrightarrow> length docs \<le> i"
  by (auto simp: findById_def)

subsection \<open>Approval\<close>

text \<open>What one call of the approve handler does: nothing to the collections, or the one approval.\<close>

lemma approve_effect:
  assumes "approve bid uid now s = (r, s')"
  shows "(equipments s' = equipments s \<and> borrowings s' = borrowings s \<and> (\<forall>b. r \<noteq> Json 200 b))
       \<or> (\<exists>b e. findById (borrowings s) bid = Some b \<and> status b = pending
             \<and> findById (equipments s) (equipment b) = Some e
             \<and> bquantity b \<le> availableQuantity e
             \<and> r = Json 200 (b\<lparr>status := approved, approvedBy := Some uid, approvedAt := Some now\<rparr>)
             \<and> s' = s\<lparr>equipments := (equipments s)[equipment b :=
                                        e\<lparr>availableQuantity := availableQuantity e - bquantity b\<rparr>],
                      borrowings := (borrowings s)[bid :=
                                        b\<lparr>status := approved, approvedBy := Some uid, approvedAt := Some now\<rparr>]\<rparr>)"
  using assms
  by (auto simp: approve_def saveEquipment_def saveBorrowing_def serverError_def Let_def
      split: option.splits if_splits sum.splits)

text \<open>
  C6.  When the approve handler finds the request pending and the equipment's available
  quantity below the requested quantity, it answers 400 "Not enough equipment available"
  and writes nothing: the whole database, so the available quantity and the request's
  pending status too, is as before.
\<close>

theorem approve_insufficient_stock:
  assumes "findById (borrowings s) bid = Some b" and "status b = pending"
    and "findById (equipments s) (equipment b) = Some e"
    and "availableQuantity e < bquantity b"
  shows "approve bid uid now s = (Message 400 ''Not enough equipment available'', s)"
  using assms by (simp add: approve_def)

theorem approve_insufficient_stock_witness:
  "findById (borrowings fullyCommitted) 0 = Some (newBorrowing 7 0 1 200 100 ''good'')
   \<and> status (newBorrowing 7 0 1 200 100 ''good'') = pending
   \<and> findById (equipments fullyCommitted) 0 =
       Some \<lparr>condition = ''good'', quantity = 2, availableQuantity = 0, isActive = True\<rparr>
   \<and> availableQuantity \<lparr>condition = ''good'', quantity = 2, availableQuantity = 0, isActive = True\<rparr>
       < bquantity (newBorrowing 7 0 1 200 100 ''good'')
   \<and> approve 0 9 110 fullyCommitted = (Message 400 ''Not enough equipment available'', fullyCommitted)"
  using approve_insufficient_stock [of fullyCommitted 0 "newBorrowing 7 0 1 200 100 ''good''"
      "\<lparr>condition = ''good'', quantity = 2, availableQuantity = 0, isActive = True\<rparr>" 9 110]
  by (simp add: fullyCommitted_def findById_def newBorrowing_def)

text \<open>
  C5.  Two approve calls in a row on the same request.  The second call never changes the
  equipment or borrowing collection, whatever the first one did.  When the first call
  succeeds, it has lowered the available quantity of the request's equipment by the
  request's quantity (once), and the second call answers 400 "Request already processed"
  and leaves the database as the first call left it.
\<close>

theorem approve_twice:
  "(equipments (snd (approve bid u2 t2 (snd (approve bid u1 t1 s)))) = equipments (snd (approve bid u1 t1 s))
    \<and> borrowings (snd (approve bid u2 t2 (snd (approve bid u1 t1 s)))) = borrowings (snd (approve bid u1 t1 s)))
   \<and> (\<forall>b' s1. approve bid u1 t1 s = (Json 200 b', s1) \<longrightarrow>
        (\<exists>b e. findById (borrowings s) bid = Some b \<and> findById (equipments s) (equipment b) = Some e
           \<and> equipments s1 = (equipments s)[equipment b := e\<lparr>availableQuantity := availableQuantity e - bquantity b\<rparr>])
        \<and> approve bid u2 t2 s1 = (Message 400 ''Request already processed'', s1))"
proof -
  obtain r s1 where first: "approve bid u1 t1 s = (r, s1)" by (cases "approve bid u1 t1 s")
  obtain r2 s2 where second: "approve bid u2 t2 s1 = (r2, s2)" by (cases "approve bid u2 t2 s1")
  from approve_effect [OF first] show ?thesis
  proof
    assume same: "equipments s1 = equipments s \<and> borrowings s1 = borrowings s \<and> (\<forall>b. r \<noteq> Json 200 b)"
    from approve_effect [OF second] have "equipments s2 = equipments s1 \<and> borrowings s2 = borrowings s1"
    proof
      assume "equipments s2 = equipments s1 \<and> borrowings s2 = borrowings s1 \<and> (\<forall>b. r2 \<noteq> Json 200 b)"
      then show ?thesis by simp
    next
      assume "\<exists>b e. findById (borrowings s1) bid = Some b \<and> status b = pending
             \<and> findById (equipments s1) (equipment b) = Some e
             \<and> bquantity b \<le> availableQuantity e
             \<and> r2 = Json 200 (b\<lparr>status := approved, approvedBy := Some u2, approvedAt := Some t2\<rparr>)
             \<and> s2 = s1\<lparr>equipments := (equipments s1)[equipment b :=
                                        e\<lparr>availableQuantity := availableQuantity e - bquantity b\<rparr>],
                      borrowings := (borrowings s1)[bid :=
                                        b\<lparr>status := approved, approvedBy := Some u2, approvedAt := Some t2\<rparr>]\<rparr>"
      then obtain b e where "findById (borrowings s) bid = Some b" "status b = pending"
        "findById (equipments s) (equipment b) = Some e" "bquantity b \<le> availableQuantity e"
        using same by auto
      then have "\<exists>b. r = Json 200 b" using first
        by (auto simp: approve_def saveEquipment_def saveBorrowing_def Let_def)
      with same show ?thesis by simp
    qed
    with first second same show ?thesis by simp
  next
    assume "\<exists>b e. findById (borrowings s) bid = Some b \<and> status b = pending
             \<and> findById (equipments s) (equipment b) = Some e
             \<and> bquantity b \<le> availableQuantity e
             \<and> r = Json 200 (b\<lparr>status := approved, approvedBy := Some u1, approvedAt := Some t1\<rparr>)
             \<and> s1 = s\<lparr>equipments := (equipments s)[equipment b :=
                                        e\<lparr>availableQuantity := availableQuantity e - bquantity b\<rparr>],
                      borrowings := (borrowings s)[bid :=
                                        b\<lparr>status := approved, approvedBy := Some u1, approvedAt := Some t1\<rparr>]\<rparr>"
    then obtain b e where b: "findById (borrowings s) bid = Some b" 
      and e: "findById (equipments s) (equipment b) = Some e"
      and r: "r = Json 200 (b\<lparr>status := approved, approvedBy := Some u1, approvedAt := Some t1\<rparr>)"
      and s1: "s1 = s\<lparr>equipments := (equipments s)[equipment b :=
                                        e\<lparr>availableQuantity := availableQuantity e - bquantity b\<rparr>],
                      borrowings := (borrowings s)[bid :=
                                        b\<lparr>status := approved, approvedBy := Some u1, approvedAt := Some t1\<rparr>]\<rparr>"
      by blast
    from b have "bid < length (borrowings s)" by (simp add: findById_def split: if_splits)
    then have "approve bid u2 t2 s1 = (Message 400 ''Request already processed'', s1)"
      by (simp add: s1 approve_def findById_def)
    with first b e s1 show ?thesis by auto
  qed
qed

theorem approve_twice_witness:
  "approve 0 9 110 wellStocked =
     (Json 200 ((newBorrowing 7 0 3 200 100 ''good'')
                 \<lparr>status := approved, approvedBy := Some 9, approvedAt := Some 110\<rparr>),
      wellStocked\<lparr>equipments := [\<lparr>condition = ''good'', quantity = 5, availableQuantity = 2,
                                     isActive = True\<rparr>],
                    borrowings := [(newBorrowing 7 0 3 200 100 ''good'')
                 \<lparr>status := approved, approvedBy := Some 9, approvedAt := Some 110\<rparr>]\<rparr>)
   \<and> approve 0 8 120
        (wellStocked\<lparr>equipments := [\<lparr>condition = ''good'', quantity = 5, availableQuantity = 2,
                                     isActive = True\<rparr>],
                    borrowings := [(newBorrowing 7 0 3 200 100 ''good'')
                 \<lparr>status := approved, approvedBy := Some 9, approvedAt := Some 110\<rparr>]\<rparr>)
     = (Message 400 ''Request already processed'',
        wellStocked\<lparr>equipments := [\<lparr>condition = ''good'', quantity = 5, availableQuantity = 2,
                                     isActive = True\<rparr>],
                    borrowings := [(newBorrowing 7 0 3 200 100 ''good'')
                 \<lparr>status := approved, approvedBy := Some 9, approvedAt := Some 110\<rparr>]\<rparr>)"
proof -
  have first: "approve 0 9 110 wellStocked =
     (Json 200 ((newBorrowing 7 0 3 200 100 ''good'')
                 \<lparr>status := approved, approvedBy := Some 9, approvedAt := Some 110\<rparr>),
      wellStocked\<lparr>equipments := [\<lparr>condition = ''good'', quantity = 5, availableQuantity = 2,
                                     isActive = True\<rparr>],
                    borrowings := [(newBorrowing 7 0 3 200 100 ''good'')
                 \<lparr>status := approved, approvedBy := Some 9, approvedAt := Some 110\<rparr>]\<rparr>)"
    by (simp add: approve_def wellStocked_def eval_defs)
  with approve_twice [of 0 8 120 9 110 wellStocked] show ?thesis by simp
qed

subsection \<open>The second registrations\<close>

text \<open>
  C10.  For every request and every database, the second registered approve handler gives
  the same response and leaves the same equipment and borrowing collections as the first,
  and so do the two return handlers (they differ only in the text that the
  \<open>catch\<close> block logs); Express answers from the first registration, with or without
  the second one in the table.
\<close>

theorem duplicate_handlers_equivalent:
  "fst (approveSecond bid uid now s) = fst (approve bid uid now s)
   \<and> equipments (snd (approveSecond bid uid now s)) = equipments (snd (approve bid uid now s))
   \<and> borrowings (snd (approveSecond bid uid now s)) = borrowings (snd (approve bid uid now s))
   \<and> fst (returnItemSecond bid uid now reqCondition reqNotes s)
       = fst (returnItem bid uid now reqCondition reqNotes s)
   \<and> equipments (snd (returnItemSecond bid uid now reqCondition reqNotes s))
       = equipments (snd (returnItem bid uid now reqCondition reqNotes s))
   \<and> borrowings (snd (returnItemSecond bid uid now reqCondition reqNotes s))
       = borrowings (snd (returnItem bid uid now reqCondition reqNotes s))
   \<and> dispatch [approve bid uid now, approveSecond bid uid now] s = dispatch [approve bid uid now] s
   \<and> dispatch [returnItem bid uid now reqCondition reqNotes,
                 returnItemSecond bid uid now reqCondition reqNotes] s
       = dispatch [returnItem bid uid now reqCondition reqNotes] s"
proof -
  have a: "fst (approveSecond bid uid now s) = fst (approve bid uid now s)
   \<and> equipments (snd (approveSecond bid uid now s)) = equipments (snd (approve bid uid now s))
   \<and> borrowings (snd (approveSecond bid uid now s)) = borrowings (snd (approve bid uid now s))"
    by (simp add: approve_def approveSecond_def serverError_def serverErrorIn_def Let_def
        split: option.splits sum.splits)
  have r: "fst (returnItemSecond bid uid now reqCondition reqNotes s)
       = fst (returnItem bid uid now reqCondition reqNotes s)
   \<and> equipments (snd (returnItemSecond bid uid now reqCondition reqNotes s))
       = equipments (snd (returnItem bid uid now reqCondition reqNotes s))
   \<and> borrowings (snd (returnItemSecond bid uid now reqCondition reqNotes s))
       = borrowings (snd (returnItem bid uid now reqCondition reqNotes s))"
    by (simp add: returnItem_def returnItemSecond_def serverError_def serverErrorIn_def Let_def
        split: option.splits sum.splits)
  from a r show ?thesis by (simp add: dispatch_def)
qed

subsection \<open>The overdue job\<close>

text \<open>The loop over the found documents does what a map over the collection does.\<close>

lemma markOverdue_loop:
  "borrowings s = pre @ xs \<Longrightarrow>
   markOverdue (filter (\<lambda>(i, b). P b) (enumerate (length pre) xs)) s =
     (None, s\<lparr>borrowings := pre @ map (\<lambda>b. if P b then b\<lparr>status := overdue\<rparr> else b) xs\<rparr>)"
proof (induction xs arbitrary: pre s)
  case Nil
  then show ?case by simp
next
  case (Cons x xs)
  show ?case
  proof (cases "P x")
    case True
    let ?s1 = "s\<lparr>borrowings := (pre @ [x\<lparr>status := overdue\<rparr>]) @ xs\<rparr>"
    have save: "saveBorrowing False (length pre) (x\<lparr>status := overdue\<rparr>) s = Inr ?s1"
      using Cons.prems by (simp add: saveBorrowing_def)
    have "markOverdue (filter (\<lambda>(i, b). P b) (enumerate (length (pre @ [x\<lparr>status := overdue\<rparr>])) xs)) ?s1 =
      (None, ?s1\<lparr>borrowings := (pre @ [x\<lparr>status := overdue\<rparr>]) @
         map (\<lambda>b. if P b then b\<lparr>status := overdue\<rparr> else b) xs\<rparr>)"
      by (intro Cons.IH) simp
    with True save show ?thesis by simp
  next
    case False
    have "markOverdue (filter (\<lambda>(i, b). P b) (enumerate (length (pre @ [x])) xs)) s =
      (None, s\<lparr>borrowings := (pre @ [x]) @
         map (\<lambda>b. if P b then b\<lparr>status := overdue\<rparr> else b) xs\<rparr>)"
      using Cons.prems by (intro Cons.IH) simp
    with False show ?thesis by simp
  qed
qed

lemma checkOverdueBorrowings_map:
  "checkOverdueBorrowings now s =
     s\<lparr>borrowings := map (\<lambda>b. if isLapsed now b then b\<lparr>status := overdue\<rparr> else b) (borrowings s)\<rparr>"
  using markOverdue_loop [of s "[]" "borrowings s" "isLapsed now"]
  by (simp add: checkOverdueBorrowings_def)

subsection \<open>The availability job\<close>

lemma reconcileEach_loop:
  "equipments s = pre @ xs \<Longrightarrow> borrowings s = bs \<Longrightarrow>
   reconcileEach (filter (\<lambda>(i, e). isActive e) (enumerate (length pre) xs)) s =
     (None, s\<lparr>equipments := pre @ map (\<lambda>(i, e). if isActive e
          then e\<lparr>availableQuantity := max 0 (quantity e - borrowedQuantity bs i)\<rparr>
          else e) (enumerate (length pre) xs)\<rparr>)"
proof (induction xs arbitrary: pre s)
  case Nil
  then show ?case by simp
next
  case (Cons x xs)
  let ?f = "\<lambda>(i, e). if isActive e
          then e\<lparr>availableQuantity := max 0 (quantity e - borrowedQuantity bs i)\<rparr>
          else e"
  let ?x' = "x\<lparr>availableQuantity := max 0 (quantity x - borrowedQuantity bs (length pre))\<rparr>"
  have skip: "reconcileEach (filter (\<lambda>(i, e). isActive e) (enumerate (Suc (length pre)) xs)) s =
      (None, s\<lparr>equipments := pre @ x # map ?f (enumerate (Suc (length pre)) xs)\<rparr>)"
    using Cons.IH [of s "pre @ [x]"] Cons.prems by simp
  show ?case
  proof (cases "isActive x")
    case False
    with skip show ?thesis by simp
  next
    case True
    show ?thesis
    proof (cases "availableQuantity x = max 0 (quantity x - borrowedQuantity bs (length pre))")
      case same: True
      then have "?x' = x" by simp
      then have "?f (length pre, x) = x" using True by simp
      with skip True same Cons.prems show ?thesis by (simp add: Let_def)
    next
      case differs: False
      let ?s1 = "s\<lparr>equipments := (pre @ [?x']) @ xs\<rparr>"
      have rest: "reconcileEach (filter (\<lambda>(i, e). isActive e) (enumerate (Suc (length pre)) xs)) ?s1 =
        (None, s\<lparr>equipments := pre @ ?x' # map ?f (enumerate (Suc (length pre)) xs)\<rparr>)"
        using Cons.IH [of ?s1 "pre @ [?x']"] Cons.prems by simp
      have "saveEquipment (length pre) ?x' s = Inr ?s1"
        using Cons.prems by (simp add: saveEquipment_def)
      with rest True differs Cons.prems show ?thesis by (simp add: Let_def)
    qed
  qed
qed

lemma updateEquipmentAvailability_map:
  "updateEquipmentAvailability s =
     s\<lparr>equipments := map (\<lambda>(i, e). if isActive e
          then e\<lparr>availableQuantity := max 0 (quantity e - borrowedQuantity (borrowings s) i)\<rparr>
          else e) (enumerate 0 (equipments s))\<rparr>"
  using reconcileEach_loop [of s "[]" "equipments s" "borrowings s"]
  by (simp add: updateEquipmentAvailability_def)



text \<open>The routes and jobs, for evaluating a trace of requests.\<close>

lemmas route_defs = createEquipment_def updateEquipment_def deleteEquipment_def createBorrowing_def
  approve_def reject_def issue_def returnItem_def checkOverdueBorrowings_def
  updateEquipmentAvailability_def run_def


text \<open>
  C8.  One run of the overdue job, at time \<open>now\<close>.  It leaves the equipment collection,
  and so every available quantity, as it was.  Every borrowing whose status is approved or
  issued, whose due date is before \<open>now\<close> and which has no return date, comes out with
  status overdue and its other fields as before; every other borrowing is unchanged.
\<close>

theorem overdue_sweep:
  "equipments (checkOverdueBorrowings now s) = equipments s
   \<and> length (borrowings (checkOverdueBorrowings now s)) = length (borrowings s)
   \<and> (\<forall>i < length (borrowings s).
        ((status (borrowings s ! i) = approved \<or> status (borrowings s ! i) = issued)
           \<and> dueDate (borrowings s ! i) < now \<and> returnDate (borrowings s ! i) = None
         \<longrightarrow> borrowings (checkOverdueBorrowings now s) ! i = (borrowings s ! i)\<lparr>status := overdue\<rparr>)
      \<and> (\<not> ((status (borrowings s ! i) = approved \<or> status (borrowings s ! i) = issued)
           \<and> dueDate (borrowings s ! i) < now \<and> returnDate (borrowings s ! i) = None)
         \<longrightarrow> borrowings (checkOverdueBorrowings now s) ! i = borrowings s ! i))"
  by (auto simp: checkOverdueBorrowings_map isLapsed_def)

theorem overdue_sweep_witness:
  "(0::nat) < length (borrowings issuedLate)
   \<and> status (borrowings issuedLate ! 0) = issued
   \<and> dueDate (borrowings issuedLate ! 0) < 300 \<and> returnDate (borrowings issuedLate ! 0) = None
   \<and> status (borrowings (checkOverdueBorrowings 300 issuedLate) ! 0) = overdue
   \<and> equipments (checkOverdueBorrowings 300 issuedLate) = equipments issuedLate"
  using overdue_sweep [of 300 issuedLate]
  by (simp add: issuedLate_def newBorrowing_def)





subsection \<open>Editing the total quantity\<close>

text \<open>
  C3.  Editing the total from 5 to 8 through \<open>PUT /api/equipment/:id\<close> on an equipment
  type with 5 of 5 units free: the handler writes the new total and leaves the available
  quantity at 5, where the resize of the specification gives 8.  The \<open>pre('save')\<close> hook
  that is meant to apply the change does not run on this path; and on a freshly loaded
  document whose quantity was assigned it would compute a difference of 0, since the old
  quantity it compares with is read after the assignment (the second hook, which stores
  the original quantity, runs after the first and stores the new one).
\<close>

theorem update_quantity_keeps_available:
  "updateEquipment 0 (plainBody (Some 8) None None) freshlyStocked =
     (JsonEquipment 200 \<lparr>condition = ''good'', quantity = 8, availableQuantity = 5, isActive = True\<rparr>,
      freshlyStocked\<lparr>equipments :=
        [\<lparr>condition = ''good'', quantity = 8, availableQuantity = 5, isActive = True\<rparr>]\<rparr>)
   \<and> specResize 5 8 5 = 8
   \<and> preSaveAdjust False True None
         \<lparr>condition = ''good'', quantity = 8, availableQuantity = 5, isActive = True\<rparr>
       = \<lparr>condition = ''good'', quantity = 8, availableQuantity = 5, isActive = True\<rparr>
   \<and> preSaveStore True None
         \<lparr>condition = ''good'', quantity = 8, availableQuantity = 5, isActive = True\<rparr>
       = Some 8"
  by (simp add: updateEquipment_def freshlyStocked_def specResize_def preSaveStore_def eval_defs)

subsection \<open>Admission of a request\<close>




subsection \<open>What each handler does to the collections\<close>

lemma returnItem_success:
  assumes "returnItem bid uid now reqCondition reqNotes s = (Json 200 b', s')"
  shows "\<exists>b e. findById (borrowings s) bid = Some b \<and> (status b = issued \<or> status b = overdue)
           \<and> findById (equipments s) (equipment b) = Some e
           \<and> 0 \<le> availableQuantity e + bquantity b
           \<and> b' = returnedDoc b uid now reqCondition reqNotes
           \<and> validConditionAfter b'
           \<and> s' = s\<lparr>equipments := (equipments s)[equipment b :=
                         e\<lparr>availableQuantity := availableQuantity e + bquantity b\<rparr>],
                    borrowings := (borrowings s)[bid := b']\<rparr>"
  using assms
  by (auto simp: returnItem_def returnedDoc_def saveEquipment_def saveBorrowing_def serverError_def
      Let_def split: option.splits if_splits sum.splits)

lemma returnItem_borrowings:
  "borrowings (snd (returnItem bid uid now reqCondition reqNotes s)) = borrowings s
   \<or> (\<exists>b'. returnItem bid uid now reqCondition reqNotes s
            = (Json 200 b', snd (returnItem bid uid now reqCondition reqNotes s)))"
  by (auto simp: returnItem_def saveEquipment_def saveBorrowing_def serverError_def
      Let_def split: option.splits if_splits sum.splits)

lemma createEquipment_borrowings [simp]:
  "borrowings (snd (createEquipment qty cond s)) = borrowings s"
  by (simp add: createEquipment_def serverErrorIn_def Let_def split: option.splits)

lemma updateEquipment_borrowings [simp]:
  "borrowings (snd (updateEquipment i body s)) = borrowings s"
  by (simp add: updateEquipment_def Let_def split: option.splits)

lemma deleteEquipment_borrowings [simp]:
  "borrowings (snd (deleteEquipment i s)) = borrowings s"
  by (simp add: deleteEquipment_def split: option.splits)

lemma updateEquipmentAvailability_borrowings [simp]:
  "borrowings (updateEquipmentAvailability s) = borrowings s"
  by (simp add: updateEquipmentAvailability_map)

lemma createBorrowing_effect:
  assumes "createBorrowing uid now equipmentId qty due s = (r, s')"
  shows "(equipments s' = equipments s \<and> borrowings s' = borrowings s)
       \<or> (\<exists>eid q d e. equipmentId = ObjectId eid \<and> qty = Some q \<and> due = ValidDate d \<and> 1 \<le> q
             \<and> findById (equipments s) eid = Some e
             \<and> condition e \<in> set borrowingConditionEnum
             \<and> s' = s\<lparr>borrowings := borrowings s @ [newBorrowing uid eid q d now (condition e)]\<rparr>)"
  using assms
  by (auto simp: createBorrowing_def serverError_def validNewBorrowing_def newBorrowing_def Let_def
      split: option.splits if_splits idField.splits dateField.splits)

lemma reject_effect:
  assumes "reject bid uid now reqNotes s = (r, s')"
  shows "(equipments s' = equipments s \<and> borrowings s' = borrowings s)
       \<or> (\<exists>b. findById (borrowings s) bid = Some b \<and> status b = pending
             \<and> s' = s\<lparr>borrowings := (borrowings s)[bid :=
                        b\<lparr>status := rejected, approvedBy := Some uid, approvedAt := Some now,
                          bnotes := orElse reqNotes (Some ''Request rejected'')\<rparr>]\<rparr>)"
  using assms
  by (auto simp: reject_def saveBorrowing_def serverError_def Let_def
      split: option.splits if_splits)

lemma issue_cases:
  assumes "issue bid now s = (r, s')"
  shows "(equipments s' = equipments s \<and> borrowings s' = borrowings s)
       \<or> (\<exists>b. findById (borrowings s) bid = Some b \<and> status b = approved
             \<and> s' = s\<lparr>borrowings := (borrowings s)[bid :=
                        b\<lparr>status := issued, issuedAt := Some now\<rparr>]\<rparr>)"
  using assms
  by (auto simp: issue_def saveBorrowing_def serverError_def Let_def
      split: option.splits if_splits)

subsection \<open>Approve, then return\<close>

text \<open>
  Issuing a borrowing and running the overdue job leave the equipment collection alone,
  and leave every borrowing its equipment and its quantity.
\<close>

lemma lifecycleStep_keeps:
  assumes "lifecycleStep bid r"
  shows "equipments (step r s) = equipments s
       \<and> length (borrowings (step r s)) = length (borrowings s)
       \<and> (\<forall>i < length (borrowings s).
             equipment (borrowings (step r s) ! i) = equipment (borrowings s ! i)
           \<and> bquantity (borrowings (step r s) ! i) = bquantity (borrowings s ! i))"
proof (cases r)
  case (PatchIssue b now)
  obtain x where "issue b now s = (x, step r s)"
    using PatchIssue by (simp add: prod_eq_iff)
  from issue_cases [OF this] show ?thesis
    by (auto simp: findById_Some_iff nth_list_update)
next
  case (OverdueJob now)
  then show ?thesis by (simp add: checkOverdueBorrowings_map)
qed (use assms in simp_all)

lemma lifecycleSteps_keep:
  assumes "list_all (lifecycleStep bid) mid"
  shows "equipments (run mid s) = equipments s
       \<and> length (borrowings (run mid s)) = length (borrowings s)
       \<and> (\<forall>i < length (borrowings s).
             equipment (borrowings (run mid s) ! i) = equipment (borrowings s ! i)
           \<and> bquantity (borrowings (run mid s) ! i) = bquantity (borrowings s ! i))"
  using assms
proof (induction mid arbitrary: s)
  case Nil
  then show ?case by (simp add: run_def)
next
  case (Cons r mid)
  then have r: "lifecycleStep bid r" and mid: "list_all (lifecycleStep bid) mid" by simp_all
  have run: "run (r # mid) s = run mid (step r s)" by (simp add: run_def)
  from lifecycleStep_keeps [OF r, of s] Cons.IH [OF mid, of "step r s"] show ?case
    by (simp add: run)
qed

text \<open>
  C7.  Round trip.  When approve succeeds on a reservation, the reservation then goes
  through steps of its own life cycle only (it is issued, the overdue job runs), and the
  return handler then succeeds on it, the equipment collection is what it was before the
  approval: the available quantity is back at its pre-approval value.
\<close>

theorem approve_then_return_roundtrip:
  assumes "approve bid u1 t1 s = (Json 200 b1, s1)"
    and "list_all (lifecycleStep bid) mid"
    and "returnItem bid u3 t3 reqCondition reqNotes (run mid s1) = (Json 200 b3, s3)"
  shows "equipments s3 = equipments s"
proof -
  from approve_effect [OF assms(1)] obtain b e where
      b: "findById (borrowings s) bid = Some b"
      and e: "findById (equipments s) (equipment b) = Some e"
      and s1: "s1 = s\<lparr>equipments := (equipments s)[equipment b :=
                                        e\<lparr>availableQuantity := availableQuantity e - bquantity b\<rparr>],
                      borrowings := (borrowings s)[bid :=
                          b\<lparr>status := approved, approvedBy := Some u1, approvedAt := Some t1\<rparr>]\<rparr>"
    by auto
  from b have bid: "bid < length (borrowings s)" by (simp add: findById_Some_iff)
  from e have k: "equipment b < length (equipments s)" and e': "equipments s ! equipment b = e"
    by (simp_all add: findById_Some_iff)
  let ?s2 = "run mid s1"
  from lifecycleSteps_keep [OF assms(2), of s1] bid
  have eq2: "equipments ?s2 = (equipments s)[equipment b :=
                e\<lparr>availableQuantity := availableQuantity e - bquantity b\<rparr>]"
    and len2: "length (borrowings ?s2) = length (borrowings s)"
    and b2: "equipment (borrowings ?s2 ! bid) = equipment b"
      "bquantity (borrowings ?s2 ! bid) = bquantity b"
    by (simp_all add: s1)
  from returnItem_success [OF assms(3)] obtain b2 e2 where
      "findById (borrowings ?s2) bid = Some b2"
      and "findById (equipments ?s2) (equipment b2) = Some e2"
      and s3: "s3 = ?s2\<lparr>equipments := (equipments ?s2)[equipment b2 :=
                         e2\<lparr>availableQuantity := availableQuantity e2 + bquantity b2\<rparr>],
                    borrowings := (borrowings ?s2)[bid := b3]\<rparr>"
    by blast
  then have "equipment b2 = equipment b" "bquantity b2 = bquantity b"
    and "e2 = e\<lparr>availableQuantity := availableQuantity e - bquantity b\<rparr>"
    using b2 eq2 k by (auto simp: findById_Some_iff)
  then have "equipments s3 = (equipments s)[equipment b := e]"
    by (subst s3) (simp add: eq2)
  with e' [symmetric] show ?thesis by simp
qed

theorem approve_then_return_roundtrip_witness:
  "fst (approve 0 9 110 wellStocked) =
     Json 200 ((newBorrowing 7 0 3 200 100 ''good'')
                 \<lparr>status := approved, approvedBy := Some 9, approvedAt := Some 110\<rparr>)
   \<and> availableQuantity (equipments (snd (approve 0 9 110 wellStocked)) ! 0) = 2
   \<and> status (borrowings (run [PatchIssue 0 120, OverdueJob 300] (snd (approve 0 9 110 wellStocked))) ! 0)
       = overdue
   \<and> fst (returnItem 0 7 310 (Some ''good'') None
             (run [PatchIssue 0 120, OverdueJob 300] (snd (approve 0 9 110 wellStocked))))
       = Json 200 ((newBorrowing 7 0 3 200 100 ''good'')
                 \<lparr>status := returned, approvedBy := Some 9, approvedAt := Some 110,
                   issuedAt := Some 120, returnDate := Some 310, conditionAfter := Some ''good''\<rparr>)
   \<and> equipments (snd (returnItem 0 7 310 (Some ''good'') None
                        (run [PatchIssue 0 120, OverdueJob 300] (snd (approve 0 9 110 wellStocked)))))
       = equipments wellStocked"
proof -
  let ?b1 = "(newBorrowing 7 0 3 200 100 ''good'')
                 \<lparr>status := approved, approvedBy := Some 9, approvedAt := Some 110\<rparr>"
  let ?s1 = "snd (approve 0 9 110 wellStocked)"
  let ?mid = "[PatchIssue 0 120, OverdueJob 300]"
  let ?b3 = "(newBorrowing 7 0 3 200 100 ''good'')
                 \<lparr>status := returned, approvedBy := Some 9, approvedAt := Some 110,
                   issuedAt := Some 120, returnDate := Some 310, conditionAfter := Some ''good''\<rparr>"
  let ?s3 = "snd (returnItem 0 7 310 (Some ''good'') None (run ?mid ?s1))"
  have fa: "fst (approve 0 9 110 wellStocked) = Json 200 ?b1"
    by (simp add: approve_def wellStocked_def eval_defs)
  have av: "availableQuantity (equipments ?s1 ! 0) = 2"
    by (simp add: approve_def wellStocked_def eval_defs)
  have st: "status (borrowings (run ?mid ?s1) ! 0) = overdue"
    by (simp add: approve_def wellStocked_def route_defs eval_defs)
  have fr: "fst (returnItem 0 7 310 (Some ''good'') None (run ?mid ?s1)) = Json 200 ?b3"
    by (simp add: approve_def wellStocked_def route_defs eval_defs)
  have a: "approve 0 9 110 wellStocked = (Json 200 ?b1, ?s1)"
    using fa by (simp add: prod_eq_iff)
  have r: "returnItem 0 7 310 (Some ''good'') None (run ?mid ?s1) = (Json 200 ?b3, ?s3)"
    using fr by (simp add: prod_eq_iff)
  have m: "list_all (lifecycleStep 0) ?mid" by simp
  from approve_then_return_roundtrip [OF a m r] fa av st fr show ?thesis by simp
qed

subsection \<open>What a step does to one borrowing\<close>

lemma step_borrowings_old:
  assumes "i < length (borrowings s)"
  shows "i < length (borrowings (step r s)) \<and>
        (borrowings (step r s) ! i = borrowings s ! i
         \<or> (status (borrowings s ! i) \<noteq> returned \<and> status (borrowings (step r s) ! i) \<noteq> returned
              \<and> damageReport (borrowings (step r s) ! i) = damageReport (borrowings s ! i))
         \<or> (\<exists>uid now c n. r = PatchReturn i uid now c n
                  \<and> returnItem i uid now c n s = (Json 200 (borrowings (step r s) ! i), step r s)))"
proof (cases r)
  case (PostEquipment qty cond)
  with assms show ?thesis by simp
next
  case (PutEquipment j body)
  with assms show ?thesis by simp
next
  case (DeleteEquipment j)
  with assms show ?thesis by simp
next
  case (PostBorrowing uid now equipmentId qty due)
  obtain x where "createBorrowing uid now equipmentId qty due s = (x, step r s)"
    using PostBorrowing by (simp add: prod_eq_iff)
  from createBorrowing_effect [OF this]
  have "borrowings (step r s) = borrowings s \<or> (\<exists>b. borrowings (step r s) = borrowings s @ [b])"
    by auto
  with assms show ?thesis by (auto simp: nth_append)
next
  case (PatchApprove bid uid now)
  obtain x where "approve bid uid now s = (x, step r s)"
    using PatchApprove by (simp add: prod_eq_iff)
  from approve_effect [OF this]
  have "borrowings (step r s) = borrowings s
      \<or> (\<exists>b. findById (borrowings s) bid = Some b \<and> status b = pending
            \<and> borrowings (step r s) = (borrowings s)[bid :=
                  b\<lparr>status := approved, approvedBy := Some uid, approvedAt := Some now\<rparr>])"
    by auto
  with assms show ?thesis by (auto simp: nth_list_update findById_Some_iff split: if_splits)
next
  case (PatchReject bid uid now reqNotes)
  obtain x where "reject bid uid now reqNotes s = (x, step r s)"
    using PatchReject by (simp add: prod_eq_iff)
  from reject_effect [OF this]
  have "borrowings (step r s) = borrowings s
      \<or> (\<exists>b. findById (borrowings s) bid = Some b \<and> status b = pending
            \<and> borrowings (step r s) = (borrowings s)[bid :=
                  b\<lparr>status := rejected, approvedBy := Some uid, approvedAt := Some now,
                          bnotes := orElse reqNotes (Some ''Request rejected'')\<rparr>])"
    by auto
  with assms show ?thesis by (auto simp: nth_list_update findById_Some_iff split: if_splits)
next
  case (PatchIssue bid now)
  obtain x where "issue bid now s = (x, step r s)"
    using PatchIssue by (simp add: prod_eq_iff)
  from issue_cases [OF this]
  have "borrowings (step r s) = borrowings s
      \<or> (\<exists>b. findById (borrowings s) bid = Some b \<and> status b = approved
            \<and> borrowings (step r s) = (borrowings s)[bid :=
                  b\<lparr>status := issued, issuedAt := Some now\<rparr>])"
    by auto
  with assms show ?thesis by (auto simp: nth_list_update findById_Some_iff split: if_splits)
next
  case (PatchReturn bid uid now c n)
  from returnItem_borrowings [of bid uid now c n s] show ?thesis
  proof
    assume "borrowings (snd (returnItem bid uid now c n s)) = borrowings s"
    with assms PatchReturn show ?thesis by simp
  next
    assume "\<exists>b'. returnItem bid uid now c n s = (Json 200 b', snd (returnItem bid uid now c n s))"
    then obtain b' where ok: "returnItem bid uid now c n s = (Json 200 b', step r s)"
      using PatchReturn by auto
    from returnItem_success [OF ok] obtain b where
      "findById (borrowings s) bid = Some b" and "borrowings (step r s) = (borrowings s)[bid := b']"
      by auto
    then have len: "bid < length (borrowings s)" "length (borrowings (step r s)) = length (borrowings s)"
      and nth: "\<And>j. j < length (borrowings s) \<Longrightarrow>
                  borrowings (step r s) ! j = (if j = bid then b' else borrowings s ! j)"
      by (simp_all add: findById_Some_iff nth_list_update)
    show ?thesis
    proof (cases "i = bid")
      case True
      with ok len nth PatchReturn show ?thesis by simp
    next
      case False
      with assms len nth show ?thesis by simp
    qed
  qed
next
  case (OverdueJob now)
  with assms show ?thesis
    by (auto simp: checkOverdueBorrowings_map isLapsed_def)
next
  case AvailabilityJob
  with assms show ?thesis by simp
qed

lemma step_borrowings_new:
  assumes "length (borrowings s) \<le> i" and "i < length (borrowings (step r s))"
  shows "status (borrowings (step r s) ! i) = pending
       \<and> damageReport (borrowings (step r s) ! i) = defaultDamageReport"
proof (cases r)
  case (PostEquipment qty cond)
  with assms show ?thesis by simp
next
  case (PutEquipment j body)
  with assms show ?thesis by simp
next
  case (DeleteEquipment j)
  with assms show ?thesis by simp
next
  case (PostBorrowing uid now equipmentId qty due)
  obtain x where "createBorrowing uid now equipmentId qty due s = (x, step r s)"
    using PostBorrowing by (simp add: prod_eq_iff)
  from createBorrowing_effect [OF this]
  have "borrowings (step r s) = borrowings s
      \<or> (\<exists>b. borrowings (step r s) = borrowings s @ [b] \<and> status b = pending
            \<and> damageReport b = defaultDamageReport)"
    by (auto simp: newBorrowing_def)
  with assms show ?thesis by (auto simp: nth_append)
next
  case (PatchApprove bid uid now)
  obtain x where "approve bid uid now s = (x, step r s)"
    using PatchApprove by (simp add: prod_eq_iff)
  from approve_effect [OF this] have "length (borrowings (step r s)) = length (borrowings s)"
    by auto
  with assms show ?thesis by simp
next
  case (PatchReject bid uid now reqNotes)
  obtain x where "reject bid uid now reqNotes s = (x, step r s)"
    using PatchReject by (simp add: prod_eq_iff)
  from reject_effect [OF this] have "length (borrowings (step r s)) = length (borrowings s)"
    by auto
  with assms show ?thesis by simp
next
  case (PatchIssue bid now)
  obtain x where "issue bid now s = (x, step r s)"
    using PatchIssue by (simp add: prod_eq_iff)
  from issue_cases [OF this] have "length (borrowings (step r s)) = length (borrowings s)"
    by auto
  with assms show ?thesis by simp
next
  case (PatchReturn bid uid now c n)
  from step_borrowings_old [of _ s r] have "length (borrowings s) \<le> length (borrowings (step r s))"
    by (metis linorder_not_less order_refl)
  moreover have "length (borrowings (step r s)) = length (borrowings s)"
    using returnItem_borrowings [of bid uid now c n s] PatchReturn
    by (auto dest!: returnItem_success)
  ultimately show ?thesis using assms by simp
next
  case (OverdueJob now)
  with assms show ?thesis by (simp add: checkOverdueBorrowings_map)
next
  case AvailabilityJob
  with assms show ?thesis by simp
qed

subsection \<open>Damage reports\<close>

lemma reportInv_step:
  assumes "reportInv s"
  shows "reportInv (step r s)"
  unfolding reportInv_def
proof (intro ballI)
  fix b assume "b \<in> set (borrowings (step r s))"
  then obtain i where i: "i < length (borrowings (step r s))" and b: "b = borrowings (step r s) ! i"
    by (auto simp: in_set_conv_nth)
  show "repairStatus (damageReport b) = ''reported''
      \<and> (status b \<noteq> returned \<longrightarrow> damageReport b = defaultDamageReport)"
  proof (cases "i < length (borrowings s)")
    case False
    with i step_borrowings_new [of s i r] b show ?thesis
      by (simp add: defaultDamageReport_def)
  next
    case True
    then have old: "repairStatus (damageReport (borrowings s ! i)) = ''reported''"
      "status (borrowings s ! i) \<noteq> returned \<longrightarrow> damageReport (borrowings s ! i) = defaultDamageReport"
      using assms by (simp_all add: reportInv_def)
    from step_borrowings_old [OF True, of r]
    consider "borrowings (step r s) ! i = borrowings s ! i"
      | "status (borrowings s ! i) \<noteq> returned"
        "damageReport (borrowings (step r s) ! i) = damageReport (borrowings s ! i)"
      | uid now c n where "returnItem i uid now c n s = (Json 200 (borrowings (step r s) ! i), step r s)"
      by blast
    then show ?thesis
    proof cases
      case 1
      with old b show ?thesis by simp
    next
      case 2
      with old b show ?thesis by simp
    next
      case 3
      from returnItem_success [OF 3] obtain b0 where
        "findById (borrowings s) i = Some b0"
        "borrowings (step r s) ! i = returnedDoc b0 uid now c n"
        by blast
      with old b show ?thesis by (auto simp: returnedDoc_def findById_Some_iff)
    qed
  qed
qed

lemma reportInv_run: "reportInv s \<Longrightarrow> reportInv (run reqs s)"
  unfolding run_def by (induction reqs arbitrary: s) (simp_all add: reportInv_step)

lemma reportInv_reachable: "reportInv (run reqs emptyDb)"
  by (rule reportInv_run) (simp add: reportInv_def emptyDb_def)

lemma issuedTrace_state: "issuedLate = run issuedTrace emptyDb"
  by (simp add: issuedTrace_def issuedLate_def route_defs eval_defs)

text \<open>
  The claim C9 as stated fails on a return that records the condition the borrowing had
  before: the stored borrowing carries a damage report with repair status \<open>reported\<close>
  all the same, the one that the schema's default gave it at creation.
\<close>

theorem damage_report_counterexample:
  "fst (returnItem 0 7 130 (Some ''good'') None issuedLate)
     = Json 200 (returnedDoc (borrowings issuedLate ! 0) 7 130 (Some ''good'') None)
   \<and> findById (borrowings (snd (returnItem 0 7 130 (Some ''good'') None issuedLate))) 0
     = Some (returnedDoc (borrowings issuedLate ! 0) 7 130 (Some ''good'') None)
   \<and> conditionAfter (returnedDoc (borrowings issuedLate ! 0) 7 130 (Some ''good'') None)
     = Some (conditionBefore (returnedDoc (borrowings issuedLate ! 0) 7 130 (Some ''good'') None))
   \<and> damageReport (returnedDoc (borrowings issuedLate ! 0) 7 130 (Some ''good'') None)
     = \<lparr>description = None, reportedAt = None, reportedBy = None, repairStatus = ''reported''\<rparr>
   \<and> damageReport (newBorrowing 7 0 3 200 100 ''good'')
     = \<lparr>description = None, reportedAt = None, reportedBy = None, repairStatus = ''reported''\<rparr>"
  by (simp add: returnItem_def returnedDoc_def issuedLate_def eval_defs)

text \<open>
  C9, as the code has it.  In every state that the requests and jobs can reach from the
  empty database, every borrowing carries a damage report whose repair status is
  \<open>reported\<close>.  A successful return stores a borrowing whose damage report has a
  description, a time and a reporter iff its recorded \<open>conditionAfter\<close> differs from its
  \<open>conditionBefore\<close>; otherwise the report is still the one from creation.  A step changes
  the damage report of an existing borrowing only if the report is still the one from
  creation and the step is a successful return of that borrowing; and a newly created
  borrowing has the report from creation.  So a report is filled in at most once, at
  return time.
\<close>

theorem damage_report_filled_iff_condition_changed:
  assumes "s = run reqs emptyDb"
  shows "(\<forall>i < length (borrowings s). repairStatus (damageReport (borrowings s ! i)) = ''reported'')
       \<and> (\<forall>bid uid now c n b' s'. returnItem bid uid now c n s = (Json 200 b', s') \<longrightarrow>
            findById (borrowings s') bid = Some b'
          \<and> (description (damageReport b') \<noteq> None
               \<longleftrightarrow> conditionAfter b' \<noteq> Some (conditionBefore b'))
          \<and> (reportedAt (damageReport b') \<noteq> None
               \<longleftrightarrow> conditionAfter b' \<noteq> Some (conditionBefore b'))
          \<and> (reportedBy (damageReport b') \<noteq> None
               \<longleftrightarrow> conditionAfter b' \<noteq> Some (conditionBefore b'))
          \<and> repairStatus (damageReport b') = ''reported'')
       \<and> (\<forall>r i. i < length (borrowings s)
              \<and> damageReport (borrowings (step r s) ! i) \<noteq> damageReport (borrowings s ! i) \<longrightarrow>
            damageReport (borrowings s ! i) = defaultDamageReport
          \<and> (\<exists>uid now c n. r = PatchReturn i uid now c n
                \<and> fst (returnItem i uid now c n s) = Json 200 (borrowings (step r s) ! i)))
       \<and> (\<forall>r i. length (borrowings s) \<le> i \<and> i < length (borrowings (step r s)) \<longrightarrow>
            damageReport (borrowings (step r s) ! i) = defaultDamageReport)"
proof -
  have inv: "reportInv s" using assms by (simp add: reportInv_reachable)
  have status: "\<forall>i < length (borrowings s). repairStatus (damageReport (borrowings s ! i)) = ''reported''"
    using inv by (simp add: reportInv_def)
  have ret: "findById (borrowings s') bid = Some b'
          \<and> (description (damageReport b') \<noteq> None
               \<longleftrightarrow> conditionAfter b' \<noteq> Some (conditionBefore b'))
          \<and> (reportedAt (damageReport b') \<noteq> None
               \<longleftrightarrow> conditionAfter b' \<noteq> Some (conditionBefore b'))
          \<and> (reportedBy (damageReport b') \<noteq> None
               \<longleftrightarrow> conditionAfter b' \<noteq> Some (conditionBefore b'))
          \<and> repairStatus (damageReport b') = ''reported''"
    if ok: "returnItem bid uid now c n s = (Json 200 b', s')" for bid uid now c n b' s'
  proof -
    from returnItem_success [OF ok] obtain b e where
        b: "findById (borrowings s) bid = Some b" and st: "status b = issued \<or> status b = overdue"
        and b': "b' = returnedDoc b uid now c n"
        and s': "borrowings s' = (borrowings s)[bid := b']"
      by auto
    from b have "b \<in> set (borrowings s)" by (auto simp: findById_Some_iff)
    with inv st have none: "damageReport b = defaultDamageReport" by (auto simp: reportInv_def)
    have "findById (borrowings s') bid = Some b'"
      using b s' by (simp add: findById_def split: if_splits)
    then show ?thesis
      using none by (auto simp: b' returnedDoc_def orElse_def defaultDamageReport_def)
  qed
  have change: "damageReport (borrowings s ! i) = defaultDamageReport
          \<and> (\<exists>uid now c n. r = PatchReturn i uid now c n
                \<and> fst (returnItem i uid now c n s) = Json 200 (borrowings (step r s) ! i))"
    if a: "i < length (borrowings s)
              \<and> damageReport (borrowings (step r s) ! i) \<noteq> damageReport (borrowings s ! i)" for r i
  proof -
    from a have i: "i < length (borrowings s)" by simp
    from a have "borrowings (step r s) ! i \<noteq> borrowings s ! i" by auto
    with step_borrowings_old [OF i, of r] a
    obtain uid now c n where r: "r = PatchReturn i uid now c n"
      and ok: "returnItem i uid now c n s = (Json 200 (borrowings (step r s) ! i), step r s)"
      by blast
    from returnItem_success [OF ok] have "status (borrowings s ! i) \<noteq> returned"
      by (auto simp: findById_Some_iff)
    with inv i have "damageReport (borrowings s ! i) = defaultDamageReport"
      by (auto simp: reportInv_def)
    moreover from ok have "fst (returnItem i uid now c n s) = Json 200 (borrowings (step r s) ! i)"
      by (rule arg_cong [where f = fst, THEN trans]) simp
    ultimately show ?thesis using r by blast
  qed
  have fresh: "damageReport (borrowings (step r s) ! i) = defaultDamageReport"
    if "length (borrowings s) \<le> i \<and> i < length (borrowings (step r s))" for r i
    using that step_borrowings_new [of s i r] by simp
  from status ret change fresh show ?thesis by blast
qed

theorem damage_report_filled_iff_condition_changed_witness:
  "issuedLate = run issuedTrace emptyDb
   \<and> fst (returnItem 0 7 130 (Some ''fair'') None issuedLate)
       = Json 200 (returnedDoc (borrowings issuedLate ! 0) 7 130 (Some ''fair'') None)
   \<and> conditionAfter (returnedDoc (borrowings issuedLate ! 0) 7 130 (Some ''fair'') None) = Some ''fair''
   \<and> conditionBefore (returnedDoc (borrowings issuedLate ! 0) 7 130 (Some ''fair'') None) = ''good''
   \<and> description (damageReport (returnedDoc (borrowings issuedLate ! 0) 7 130 (Some ''fair'') None))
       \<noteq> None
   \<and> repairStatus (damageReport (returnedDoc (borrowings issuedLate ! 0) 7 130 (Some ''fair'') None))
       = ''reported''"
proof -
  let ?b' = "returnedDoc (borrowings issuedLate ! 0) 7 130 (Some ''fair'') None"
  let ?s' = "snd (returnItem 0 7 130 (Some ''fair'') None issuedLate)"
  have f: "fst (returnItem 0 7 130 (Some ''fair'') None issuedLate) = Json 200 ?b'"
    by (simp add: returnItem_def returnedDoc_def issuedLate_def eval_defs)
  then have ok: "returnItem 0 7 130 (Some ''fair'') None issuedLate = (Json 200 ?b', ?s')"
    by (simp add: prod_eq_iff)
  have c: "conditionAfter ?b' = Some ''fair''" "conditionBefore ?b' = ''good''"
    by (simp_all add: returnedDoc_def issuedLate_def eval_defs)
  from damage_report_filled_iff_condition_changed [OF issuedTrace_state] ok
  have "(description (damageReport ?b') \<noteq> None \<longleftrightarrow> conditionAfter ?b' \<noteq> Some (conditionBefore ?b'))
      \<and> repairStatus (damageReport ?b') = ''reported''"
    by blast
  with c have "description (damageReport ?b') \<noteq> None"
    "repairStatus (damageReport ?b') = ''reported''" by simp_all
  with f c issuedTrace_state show ?thesis by simp
qed

subsection \<open>The ledger\<close>

lemma committedQuantity_share:
  "committedQuantity bs i = sum_list (map (committedShare i) bs)"
  by (induction bs) (auto simp: committedQuantity_def committedShare_def)





lemma committedQuantity_nonneg:
  "\<forall>b \<in> set bs. 1 \<le> bquantity b \<Longrightarrow> 0 \<le> committedQuantity bs i"
  by (induction bs) (auto simp: committedQuantity_share committedShare_def)


lemma ledgerInv_committed_nonneg:
  assumes "ledgerInv s"
  shows "0 \<le> committedQuantity (borrowings s) i"
  using assms by (intro committedQuantity_nonneg) (simp add: ledgerInv_def validNewBorrowing_def)

lemma ledgerInv_bounds:
  assumes "ledgerInv s" and "i < length (equipments s)"
  shows "0 \<le> availableQuantity (equipments s ! i)
       \<and> availableQuantity (equipments s ! i) \<le> quantity (equipments s ! i)
       \<and> availableQuantity (equipments s ! i) + committedQuantity (borrowings s) i
           \<le> quantity (equipments s ! i)"
  using assms ledgerInv_committed_nonneg [OF assms(1), of i] by (auto simp: ledgerInv_def)

text \<open>
  In a state with the ledger invariant every stored document passes all validators of
  its schema, the stored paths that \<open>saveEquipment\<close> and \<open>saveBorrowing\<close> do not check
  included.
\<close>

lemma ledgerInv_stored_valid:
  assumes "ledgerInv s"
  shows "(\<forall>i < length (equipments s).
            0 \<le> quantity (equipments s ! i) \<and> 0 \<le> availableQuantity (equipments s ! i)
          \<and> condition (equipments s ! i) \<in> set equipmentConditionEnum)
       \<and> (\<forall>b \<in> set (borrowings s). validNewBorrowing b \<and> validConditionAfter b)"
  using assms ledgerInv_bounds [OF assms] by (fastforce simp: ledgerInv_def)






















text \<open>
  A return that fails validation of the borrowing has already saved the equipment: after
  \<open>returnTwice\<close> the three units have been released twice, 8 free of 5.
\<close>

lemma failed_return_releases_twice:
  "fst (returnItem 0 7 130 (Some ''broken'') None issuedLate) = Message 500 ''Server error''
   \<and> borrowings (snd (returnItem 0 7 130 (Some ''broken'') None issuedLate)) = borrowings issuedLate
   \<and> availableQuantity (equipments (snd (returnItem 0 7 130 (Some ''broken'') None issuedLate)) ! 0) = 5
   \<and> availableQuantity (equipments (run returnTwice emptyDb) ! 0) = 8
   \<and> quantity (equipments (run returnTwice emptyDb) ! 0) = 5"
  by (simp add: returnTwice_def issuedLate_def route_defs eval_defs)

text \<open>
  An equipment update strips only a top-level \<open>availableQuantity\<close>.  An increment written
  as an update operator changes the available quantity without any validator: 5 free of 5
  become -95 free of 5.  An assignment written as an operator passes the minimum validator
  and is stored: 99 free of 5.  The same assignment at the top level of the body is dropped.
\<close>

lemma update_operators_write_available:
  "fst (updateEquipment 0 (incAvailableBody (- 100)) wellStocked)
     = JsonEquipment 200 \<lparr>condition = ''good'', quantity = 5, availableQuantity = - 95, isActive = True\<rparr>
   \<and> availableQuantity (equipments (snd (updateEquipment 0 (incAvailableBody (- 100)) wellStocked)) ! 0) = - 95
   \<and> availableQuantity (equipments (snd (updateEquipment 0 (setAvailableBody 99) wellStocked)) ! 0) = 99
   \<and> quantity (equipments (snd (updateEquipment 0 (setAvailableBody 99) wellStocked)) ! 0) = 5
   \<and> fst (updateEquipment 0 (setAvailableBody (- 1)) wellStocked) = Message 400 ''Validation error''
   \<and> equipments (snd (updateEquipment 0 ((plainBody None None None)\<lparr>bodyAvailableQuantity := Some 99\<rparr>)
                         wellStocked)) = equipments wellStocked"
  by (simp add: incAvailableBody_def setAvailableBody_def wellStocked_def updateEquipment_def
      eval_defs)

lemma growThenReturn_state:
  "equipments (run growThenReturn emptyDb)
     = [\<lparr>condition = ''good'', quantity = 6, availableQuantity = 6, isActive = True\<rparr>]
   \<and> map status (borrowings (run growThenReturn emptyDb)) = [returned]
   \<and> map conditionAfter (borrowings (run growThenReturn emptyDb)) = [Some ''fair'']"
  by (simp add: growThenReturn_def route_defs eval_defs)




end
